theory Spec2Isabelle
  imports Main "HOL-Library.Char_ord"
begin

section \<open>Strings and the two regular expressions of \<^verbatim>\<open>calculator.py\<close>\<close>

text \<open>
  A Python \<^verbatim>\<open>str\<close> is modelled as an Isabelle \<open>string\<close>; a character is read as the
  code point of the same number (U+0000 to U+00FF). Every character the window can put
  into the expression (its buttons and key bindings) is ASCII.

  On these code points \<^verbatim>\<open>\d\<close> matches exactly the ten ASCII digits, and \<^verbatim>\<open>\s\<close> and
  \<^verbatim>\<open>str.strip()\<close> treat as white space U+0009 to U+000D, U+001C to U+0020, U+0085 and
  U+00A0.
\<close>

definition is_digit :: "char \<Rightarrow> bool" where
  "is_digit c = (CHR ''0'' \<le> c \<and> c \<le> CHR ''9'')"

definition is_space :: "char \<Rightarrow> bool" where
  "is_space c = ((CHR 0x09 \<le> c \<and> c \<le> CHR 0x0D) \<or> (CHR 0x1C \<le> c \<and> c \<le> CHR 0x20)
                 \<or> c = CHR 0x85 \<or> c = CHR 0xA0)"

text \<open>
  The character class of \<^verbatim>\<open>ALLOWED_CHARS_RE\<close>:
  \<^verbatim>\<open>[0-9+\-*/().% \t\n,a-zA-Z_]\<close>.
\<close>

definition allowed_char :: "char \<Rightarrow> bool" where
  "allowed_char c =
     ((CHR ''0'' \<le> c \<and> c \<le> CHR ''9'')
      \<or> c = CHR ''+'' \<or> c = CHR ''-'' \<or> c = CHR ''*'' \<or> c = CHR ''/''
      \<or> c = CHR ''('' \<or> c = CHR '')'' \<or> c = CHR ''.'' \<or> c = CHR ''%''
      \<or> c = CHR '' '' \<or> c = CHR 0x09 \<or> c = CHR 0x0A \<or> c = CHR '',''
      \<or> (CHR ''a'' \<le> c \<and> c \<le> CHR ''z'') \<or> (CHR ''A'' \<le> c \<and> c \<le> CHR ''Z'')
      \<or> c = CHR ''_'')"

subsection \<open>A backtracking matcher\<close>

text \<open>
  Python's \<^verbatim>\<open>re\<close> is a backtracking matcher: a greedy quantifier tries the longest
  repetition first and gives characters back one at a time, an optional part is tried
  before it is skipped. \<open>run r s\<close> lists, in that order of preference, what is left of
  \<open>s\<close> after each way of matching \<open>r\<close> at its start; the first entry that lets the rest
  of the pattern succeed is the match Python reports.
\<close>

datatype rx =
    Sym "char \<Rightarrow> bool"     \<comment> \<open>one character of a class\<close>
  | Many "char \<Rightarrow> bool"    \<comment> \<open>\<^verbatim>\<open>c*\<close>, greedy\<close>
  | Many1 "char \<Rightarrow> bool"   \<comment> \<open>\<^verbatim>\<open>c+\<close>, greedy\<close>
  | Opt rx                 \<comment> \<open>\<^verbatim>\<open>(r)?\<close>, greedy\<close>
  | Cat rx rx
  | Eol                    \<comment> \<open>\<^verbatim>\<open>$\<close>: the end, or just before a final newline\<close>

fun greedy_star :: "(char \<Rightarrow> bool) \<Rightarrow> string \<Rightarrow> string list" where
  "greedy_star p [] = [[]]"
| "greedy_star p (c # t) = (if p c then greedy_star p t @ [c # t] else [c # t])"

fun run :: "rx \<Rightarrow> string \<Rightarrow> string list" where
  "run (Sym p) [] = []"
| "run (Sym p) (c # t) = (if p c then [t] else [])"
| "run (Many p) s = greedy_star p s"
| "run (Many1 p) [] = []"
| "run (Many1 p) (c # t) = (if p c then greedy_star p t else [])"
| "run (Opt r) s = run r s @ [s]"
| "run (Cat a b) s = concat (map (run b) (run a s))"
| "run Eol s = (if s = [] \<or> s = [CHR 0x0A] then [s] else [])"

text \<open>
  \<^verbatim>\<open>ALLOWED_CHARS_RE = re.compile(r'^[0-9+\-*/().% \t\n,a-zA-Z_]*$')\<close>, used with
  \<^verbatim>\<open>.match(expr)\<close>, which tries the pattern at position 0 only (where \<^verbatim>\<open>^\<close> holds).
\<close>

definition ALLOWED_CHARS_RE :: rx where
  "ALLOWED_CHARS_RE = Cat (Many allowed_char) Eol"

definition re_match :: "rx \<Rightarrow> string \<Rightarrow> bool" where
  "re_match r s = (run r s \<noteq> [])"

text \<open>
  The pattern of \<^verbatim>\<open>_safe_prepare\<close>, \<^verbatim>\<open>(\d+(\.\d+)?)\s*%\<close>, in two parts: group 1 and
  what follows it.
\<close>

definition PERCENT_GROUP1 :: rx where
  "PERCENT_GROUP1 = Cat (Many1 is_digit) (Opt (Cat (Sym (\<lambda>c. c = CHR ''.'')) (Many1 is_digit)))"

definition PERCENT_TAIL :: rx where
  "PERCENT_TAIL = Cat (Many is_space) (Sym (\<lambda>c. c = CHR ''%''))"

text \<open>
  The match of the whole pattern at the start of \<open>s\<close>: the text of group 1 and what is
  left after the match, or \<open>None\<close>.
\<close>

definition percent_match :: "string \<Rightarrow> (string \<times> string) option" where
  "percent_match s =
     (case concat (map (\<lambda>r1. map (\<lambda>r2. (r1, r2)) (run PERCENT_TAIL r1)) (run PERCENT_GROUP1 s)) of
        [] \<Rightarrow> None
      | (r1, r2) # _ \<Rightarrow> Some (take (length s - length r1) s, r2))"

text \<open>
  What \<open>run\<close> returns is always a final part of its input, and \<^verbatim>\<open>\d+\<close> uses up at least
  one character: a match of the percent pattern is never empty.
\<close>

lemma greedy_star_suffix: "r \<in> set (greedy_star p s) \<Longrightarrow> \<exists>u. s = u @ r"
proof (induction s)
  case Nil
  then show ?case by simp
next
  case (Cons c t)
  then show ?case by (auto split: if_splits)
qed

lemma run_suffix: "r \<in> set (run x s) \<Longrightarrow> \<exists>u. s = u @ r"
proof (induction x arbitrary: s r)
  case (Sym p)
  then show ?case by (cases s) (auto split: if_splits)
next
  case (Many p)
  then show ?case by (simp add: greedy_star_suffix)
next
  case (Many1 p)
  show ?case
  proof (cases s)
    case Nil
    with Many1 show ?thesis by simp
  next
    case (Cons c t)
    with Many1 have "r \<in> set (greedy_star p t)" by (auto split: if_splits)
    then obtain u where "t = u @ r" using greedy_star_suffix by blast
    with Cons show ?thesis by (metis append_Cons)
  qed
next
  case (Opt x)
  then show ?case by auto
next
  case (Cat a b)
  then obtain m where m: "m \<in> set (run a s)" "r \<in> set (run b m)" by auto
  from Cat.IH(1)[OF m(1)] obtain u where "s = u @ m" by blast
  moreover from Cat.IH(2)[OF m(2)] obtain v where "m = v @ r" by blast
  ultimately show ?case by (metis append.assoc)
next
  case Eol
  then show ?case by (auto split: if_splits)
qed

lemma run_length: "r \<in> set (run x s) \<Longrightarrow> length r \<le> length s"
  using run_suffix by fastforce

lemma many1_consumes:
  assumes "r \<in> set (run (Many1 p) s)"
  shows "length r < length s"
proof (cases s)
  case Nil
  with assms show ?thesis by simp
next
  case (Cons c t)
  with assms have "r \<in> set (greedy_star p t)" by (auto split: if_splits)
  then obtain u where "t = u @ r" using greedy_star_suffix by blast
  with Cons show ?thesis by simp
qed

lemma group1_consumes:
  assumes "r \<in> set (run PERCENT_GROUP1 s)"
  shows "length r < length s"
proof -
  from assms obtain m where m: "m \<in> set (run (Many1 is_digit) s)"
    and r: "r \<in> set (run (Opt (Cat (Sym (\<lambda>c. c = CHR ''.'')) (Many1 is_digit))) m)"
    unfolding PERCENT_GROUP1_def run.simps(7) by auto
  from m have "length m < length s" by (rule many1_consumes)
  moreover from r have "length r \<le> length m" by (rule run_length)
  ultimately show ?thesis by simp
qed

lemma percent_match_parts:
  assumes "percent_match s = Some (g, rest)"
  obtains r1 where "r1 \<in> set (run PERCENT_GROUP1 s)" and "rest \<in> set (run PERCENT_TAIL r1)"
    and "g = take (length s - length r1) s"
proof -
  let ?l = "concat (map (\<lambda>r1. map (\<lambda>r2. (r1, r2)) (run PERCENT_TAIL r1)) (run PERCENT_GROUP1 s))"
  from assms obtain r1 tl where l: "?l = (r1, rest) # tl" and g: "g = take (length s - length r1) s"
    by (auto simp: percent_match_def split: list.splits)
  from l have "(r1, rest) \<in> set ?l" by simp
  then have "r1 \<in> set (run PERCENT_GROUP1 s)" "rest \<in> set (run PERCENT_TAIL r1)" by auto
  with g that show ?thesis by blast
qed

lemma percent_match_shorter:
  assumes "percent_match s = Some (g, rest)"
  shows "length rest < length s"
proof -
  from assms obtain r1 where "r1 \<in> set (run PERCENT_GROUP1 s)" "rest \<in> set (run PERCENT_TAIL r1)"
    by (rule percent_match_parts)
  then show ?thesis using group1_consumes run_length by fastforce
qed

subsection \<open>\<^verbatim>\<open>re.sub\<close>, \<^verbatim>\<open>str.replace\<close>, \<^verbatim>\<open>str.strip\<close> and \<^verbatim>\<open>in\<close>\<close>

text \<open>
  \<^verbatim>\<open>re.sub(r'(\d+(\.\d+)?)\s*%', r'(\1/100)', expr)\<close> scans from the left: where the
  pattern matches, the match is replaced by \<^verbatim>\<open>(\<close>, group 1, \<^verbatim>\<open>/100)\<close> and the scan goes
  on after the match; elsewhere the character is copied.
\<close>

function percent_sub :: "string \<Rightarrow> string" where
  "percent_sub [] = []"
| "percent_sub (c # t) =
     (case percent_match (c # t) of
        Some (g, rest) \<Rightarrow> ''('' @ g @ ''/100)'' @ percent_sub rest
      | None \<Rightarrow> c # percent_sub t)"
  by pat_completeness auto
termination
  by (relation "measure length") (auto dest: percent_match_shorter)

definition replace_char :: "char \<Rightarrow> string \<Rightarrow> string \<Rightarrow> string" where
  "replace_char old new s = concat (map (\<lambda>c. if c = old then new else [c]) s)"

definition strip :: "string \<Rightarrow> string" where
  "strip s = rev (dropWhile is_space (rev (dropWhile is_space s)))"

definition rstrip :: "string \<Rightarrow> string \<Rightarrow> string" where
  "rstrip chars s = rev (dropWhile (\<lambda>c. c \<in> set chars) (rev s))"

text \<open>\<open>contains s pat\<close> is Python's \<^verbatim>\<open>pat in s\<close> on strings.\<close>

fun contains :: "string \<Rightarrow> string \<Rightarrow> bool" where
  "contains [] pat = (pat = [])"
| "contains (c # t) pat = (take (length pat) (c # t) = pat \<or> contains t pat)"

section \<open>The host: Python's \<^verbatim>\<open>eval\<close>, \<^verbatim>\<open>float\<close> and floating-point numbers\<close>

text \<open>
  \<^verbatim>\<open>_safe_eval\<close> hands the prepared string to the interpreter's own \<^verbatim>\<open>eval\<close>, and the
  numbers that come back are Python integers, booleans (a subclass of \<^verbatim>\<open>int\<close>) and
  IEEE floats. None of that is code of \<^verbatim>\<open>calculator.py\<close>: the interpreter is a parameter
  of the model, a record of the operations the calculator calls, and every theorem below
  holds for every such record. \<open>'f\<close> is the type of floats, \<open>'o\<close> the type of all other
  objects an evaluation can return (functions, tuples, complex numbers, ...).

  An operation that can raise returns a sum; \<open>Inl\<close> carries the exception, an instance
  of \<^verbatim>\<open>Exception\<close> (what \<^verbatim>\<open>except Exception\<close> catches). The operations are total
  functions: an evaluation that never returns, and an interrupt from outside, are not
  represented.
\<close>

datatype py_exception =
  SyntaxError | NameError | TypeError | ValueError | ZeroDivisionError | OverflowError
  | AttributeError | RecursionError | MemoryError

datatype ('f, 'o) py_object = PyInt int | PyBool bool | PyFloat 'f | PyOther 'o

text \<open>The objects \<^verbatim>\<open>SAFE_MATH\<close> and \<^verbatim>\<open>EVAL_GLOBALS\<close> refer to.\<close>

datatype py_global =
  Math_sin | Math_cos | Math_tan | Math_asin | Math_acos | Math_atan | Math_sqrt
  | Builtin_pow | Math_log | Math_log10 | Math_exp | Math_pi | Math_e
  | Builtin_abs | Builtin_round | Builtin_int | Builtin_float | Empty_dict

definition SAFE_MATH :: "(string \<times> py_global) list" where
  "SAFE_MATH =
     [(''sin'', Math_sin), (''cos'', Math_cos), (''tan'', Math_tan),
      (''asin'', Math_asin), (''acos'', Math_acos), (''atan'', Math_atan),
      (''sqrt'', Math_sqrt), (''pow'', Builtin_pow), (''log'', Math_log),
      (''ln'', Math_log), (''log10'', Math_log10), (''exp'', Math_exp),
      (''pi'', Math_pi), (''e'', Math_e), (''abs'', Builtin_abs),
      (''round'', Builtin_round), (''int'', Builtin_int), (''float'', Builtin_float)]"

text \<open>
  \<^verbatim>\<open>EVAL_GLOBALS = {"__builtins__": {}}\<close> followed by
  \<^verbatim>\<open>EVAL_GLOBALS.update(SAFE_MATH)\<close>.
\<close>

definition EVAL_GLOBALS :: "string \<rightharpoonup> py_global" where
  "EVAL_GLOBALS = [''__builtins__'' \<mapsto> Empty_dict] ++ map_of SAFE_MATH"

record ('f, 'o) host =
  py_eval :: "string \<Rightarrow> (string \<rightharpoonup> py_global) \<Rightarrow> py_exception + ('f, 'o) py_object"
    \<comment> \<open>\<^verbatim>\<open>eval(source, globals, {})\<close>\<close>
  py_float :: "'o \<Rightarrow> py_exception + 'f"
    \<comment> \<open>\<^verbatim>\<open>float(x)\<close> on an object that is neither an \<^verbatim>\<open>int\<close> nor a \<^verbatim>\<open>float\<close>\<close>
  float_is_integer :: "'f \<Rightarrow> bool"
    \<comment> \<open>\<^verbatim>\<open>x.is_integer()\<close>\<close>
  float_int :: "'f \<Rightarrow> int"
    \<comment> \<open>\<^verbatim>\<open>int(x)\<close> where \<^verbatim>\<open>x.is_integer()\<close>\<close>
  float_round10 :: "'f \<Rightarrow> 'f"
    \<comment> \<open>\<^verbatim>\<open>round(x, 10)\<close>\<close>
  float_str :: "'f \<Rightarrow> string"
    \<comment> \<open>\<^verbatim>\<open>str(x)\<close> on a float\<close>
  int_max_str_digits :: nat
    \<comment> \<open>\<^verbatim>\<open>sys.get_int_max_str_digits()\<close>: above that many digits \<^verbatim>\<open>str\<close> of an \<^verbatim>\<open>int\<close>
        raises \<^verbatim>\<open>ValueError\<close>; \<open>0\<close> where there is no limit\<close>

section \<open>The calculator\<close>

subsection \<open>\<^verbatim>\<open>_safe_prepare\<close>\<close>

definition safe_prepare :: "string \<Rightarrow> string" where
  "safe_prepare expr = replace_char (CHR ''^'') ''**'' (percent_sub expr)"

subsection \<open>\<^verbatim>\<open>_safe_eval\<close>\<close>

text \<open>
  \<^verbatim>\<open>_safe_eval\<close> returns an \<^verbatim>\<open>int\<close> (possibly a \<^verbatim>\<open>bool\<close>) or a \<^verbatim>\<open>float\<close>, or raises
  \<^verbatim>\<open>ValueError\<close> with one of three messages, which are the three failures of the
  specification:
  \<^item> \<^verbatim>\<open>"Invalid characters in expression."\<close> is \<open>InvalidExpression\<close>,
  \<^item> \<^verbatim>\<open>"Unsafe expression."\<close> is \<open>UnsafeExpression\<close>,
  \<^item> \<^verbatim>\<open>"Error evaluating expression."\<close> is \<open>EvaluationError\<close>.
\<close>

datatype failure = InvalidExpression | UnsafeExpression | EvaluationError

datatype 'f number = IntNum int | BoolNum bool | FloatNum 'f

definition unsafe_tokens :: "string \<Rightarrow> bool" where
  "unsafe_tokens prepared =
     (contains prepared ''__'' \<or> contains prepared ''import''
      \<or> contains prepared ''exec'' \<or> contains prepared ''eval'')"

text \<open>
  The \<^verbatim>\<open>try\<close> block: every exception of \<^verbatim>\<open>eval\<close>, and the \<^verbatim>\<open>ValueError\<close> raised for a
  result that \<^verbatim>\<open>float\<close> refuses, is caught by \<^verbatim>\<open>except Exception\<close> and raised again as
  \<^verbatim>\<open>ValueError("Error evaluating expression.")\<close>.
\<close>

definition eval_restricted :: "('f, 'o) host \<Rightarrow> string \<Rightarrow> failure + 'f number" where
  "eval_restricted h prepared =
     (case py_eval h prepared EVAL_GLOBALS of
        Inl e \<Rightarrow> Inl EvaluationError
      | Inr (PyInt n) \<Rightarrow> Inr (IntNum n)
      | Inr (PyBool b) \<Rightarrow> Inr (BoolNum b)
      | Inr (PyFloat x) \<Rightarrow> Inr (FloatNum x)
      | Inr (PyOther ob) \<Rightarrow>
          (case py_float h ob of
             Inl e \<Rightarrow> Inl EvaluationError
           | Inr x \<Rightarrow> Inr (FloatNum x)))"

definition safe_eval :: "('f, 'o) host \<Rightarrow> string \<Rightarrow> failure + 'f number" where
  "safe_eval h expr =
     (if strip expr = [] then Inr (IntNum 0)
      else if \<not> re_match ALLOWED_CHARS_RE expr then Inl InvalidExpression
      else if unsafe_tokens (safe_prepare expr) then Inl UnsafeExpression
      else eval_restricted h (safe_prepare expr))"

subsection \<open>\<^verbatim>\<open>str\<close> of a number\<close>

text \<open>
  \<^verbatim>\<open>str\<close> of an \<^verbatim>\<open>int\<close> is its decimal numeral, unless the interpreter limits the
  conversion: CPython 3.11 and later raise \<^verbatim>\<open>ValueError\<close> for an \<^verbatim>\<open>int\<close> of more digits
  than \<^verbatim>\<open>sys.get_int_max_str_digits()\<close> (4300 by default; the sign is not counted). \<^verbatim>\<open>str\<close>
  of a \<^verbatim>\<open>bool\<close> is \<^verbatim>\<open>True\<close> or \<^verbatim>\<open>False\<close>; of a float, what the host says.
\<close>

fun str_nat :: "nat \<Rightarrow> string" where
  "str_nat n =
     (if n < 10 then [''0123456789'' ! n]
      else str_nat (n div 10) @ [''0123456789'' ! (n mod 10)])"

declare str_nat.simps [simp del]

definition str_int :: "int \<Rightarrow> string" where
  "str_int i = (if i < 0 then ''-'' @ str_nat (nat (- i)) else str_nat (nat i))"

definition over_digit_limit :: "('f, 'o) host \<Rightarrow> int \<Rightarrow> bool" where
  "over_digit_limit h n = (int_max_str_digits h \<noteq> 0 \<and> 10 ^ int_max_str_digits h \<le> \<bar>n\<bar>)"

definition int_str :: "('f, 'o) host \<Rightarrow> int \<Rightarrow> py_exception + string" where
  "int_str h n = (if over_digit_limit h n then Inl ValueError else Inr (str_int n))"

definition py_str :: "('f, 'o) host \<Rightarrow> 'f number \<Rightarrow> py_exception + string" where
  "py_str h v =
     (case v of
        IntNum n \<Rightarrow> int_str h n
      | BoolNum b \<Rightarrow> Inr (if b then ''True'' else ''False'')
      | FloatNum x \<Rightarrow> Inr (float_str h x))"

subsection \<open>The window's state, \<^verbatim>\<open>_update_display\<close> and \<^verbatim>\<open>_eval\<close>\<close>

record calculator =
  expr :: string          \<comment> \<open>\<^verbatim>\<open>self.expr\<close>\<close>
  expr_var :: string      \<comment> \<open>what the small label shows\<close>
  result_var :: string    \<comment> \<open>what the large entry shows\<close>

text \<open>
  In the preview branch everything is inside \<^verbatim>\<open>try\<close> ... \<^verbatim>\<open>except Exception\<close>: a failure of
  \<^verbatim>\<open>_safe_eval\<close> and a \<^verbatim>\<open>str\<close> that raises both blank the display.
\<close>

definition update_display :: "('f, 'o) host \<Rightarrow> bool \<Rightarrow> calculator \<Rightarrow> calculator" where
  "update_display h preview st =
     (let display =
        (if preview \<and> strip (expr st) \<noteq> [] then
           (case safe_eval h (expr st) of
              Inl f \<Rightarrow> []
            | Inr (FloatNum x) \<Rightarrow>
                (if CHR ''.'' \<in> set (float_str h x)
                 then rstrip ''.'' (rstrip ''0'' (float_str h (float_round10 h x)))
                 else float_str h x)
            | Inr v \<Rightarrow> (case py_str h v of Inl e \<Rightarrow> [] | Inr s \<Rightarrow> s))
         else if expr st \<noteq> [] then expr st else ''0'')
      in st\<lparr>expr_var := expr st, result_var := display\<rparr>)"

text \<open>
  \<^verbatim>\<open>_eval\<close>, bound to the \<^verbatim>\<open>=\<close> button and the Return key. Its \<^verbatim>\<open>try\<close> block holds the
  call of \<^verbatim>\<open>_safe_eval\<close>, the conversion of a whole float to \<^verbatim>\<open>int\<close>, the assignment
  \<^verbatim>\<open>self.expr = str(val)\<close> and \<^verbatim>\<open>_update_display(preview=False)\<close>; \<^verbatim>\<open>except ValueError\<close>
  shows the error box and changes nothing. So a \<^verbatim>\<open>ValueError\<close> of \<^verbatim>\<open>str(val)\<close> is caught as
  one of \<^verbatim>\<open>_safe_eval\<close> is, before the assignment takes place; any other exception would
  leave \<^verbatim>\<open>_eval\<close>, which is the result \<open>Inl\<close>. In a result \<open>Inr\<close> the second component is
  the text of the error box, when one is shown.
\<close>

definition eval_commit ::
  "('f, 'o) host \<Rightarrow> calculator \<Rightarrow> py_exception + calculator \<times> string option" where
  "eval_commit h st =
     (case safe_eval h (expr st) of
        Inl f \<Rightarrow> Inr (st, Some ''Invalid expression'')
      | Inr val \<Rightarrow>
          (let val' = (case val of
                         FloatNum x \<Rightarrow> if float_is_integer h x then IntNum (float_int h x) else val
                       | _ \<Rightarrow> val)
           in case py_str h val' of
                Inl e \<Rightarrow>
                  if e = ValueError then Inr (st, Some ''Invalid expression'') else Inl e
              | Inr s \<Rightarrow> Inr (update_display h False (st\<lparr>expr := s\<rparr>), None)))"

subsection \<open>The arithmetic alphabet of the specification\<close>

text \<open>The characters of the specification's arithmetic strings: digits and \<^verbatim>\<open>+-*/().%\<close>.\<close>

definition arith_char :: "char \<Rightarrow> bool" where
  "arith_char c = (is_digit c \<or> c \<in> set ''+-*/().%'')"

subsection \<open>A host for concrete examples\<close>

text \<open>
  The theorems below hold for every host. To apply them to concrete input one host is
  fixed here. Its floats are the integral ones, each written as the integer it equals
  (\<open>4\<close> stands for \<^verbatim>\<open>4.0\<close>), so \<^verbatim>\<open>is_integer\<close> always holds and \<^verbatim>\<open>str\<close> appends \<^verbatim>\<open>.0\<close>.
  Its \<^verbatim>\<open>eval\<close> answers as CPython does on the six source strings listed and raises
  \<^verbatim>\<open>SyntaxError\<close> on every other one: it is a table of examples, not a model of the
  interpreter, and nothing is proved from it but the closed instances that name it. Its
  digit limit is the default of CPython 3.11 and later.
\<close>

definition table_eval ::
  "string \<Rightarrow> (string \<rightharpoonup> py_global) \<Rightarrow> py_exception + (int, unit) py_object" where
  "table_eval source globals =
     (if source = ''2+3'' then Inr (PyInt 5)
      else if source = ''8/2'' then Inr (PyFloat 4)
      else if source = ''1/0'' then Inl ZeroDivisionError
      else if source = ''foo(1)'' then
        (if globals ''foo'' = None then Inl NameError else Inl TypeError)
      else if source = ''sin'' then
        (if globals ''sin'' = None then Inl NameError else Inr (PyOther ()))
      else if source = ''10**4300'' then Inr (PyInt (10 ^ 4300))
      else Inl SyntaxError)"

definition table_host :: "(int, unit) host" where
  "table_host =
     \<lparr>py_eval = table_eval,
      py_float = (\<lambda>ob. Inl TypeError),
      float_is_integer = (\<lambda>x. True),
      float_int = (\<lambda>x. x),
      float_round10 = (\<lambda>x. x),
      float_str = (\<lambda>x. str_int x @ ''.0''),
      int_max_str_digits = 4300\<rparr>"

section \<open>Properties\<close>

subsection \<open>Character classes\<close>

lemma space_not_digit: "is_space c \<Longrightarrow> \<not> is_digit c"
  by (auto simp: is_space_def is_digit_def less_eq_char_def)

lemma space_not_dot: "is_space c \<Longrightarrow> c \<noteq> CHR ''.''"
  by (auto simp: is_space_def)

lemma allowed_newline: "allowed_char (CHR 0x0A)"
  by (simp add: allowed_char_def)

lemma allowed_char_iff:
  "allowed_char c \<longleftrightarrow>
     c \<in> {CHR ''0''..CHR ''9''} \<union> set ''+-*/().%, '' \<union> {CHR 0x09, CHR 0x0A, CHR ''_''}
         \<union> {CHR ''a''..CHR ''z''} \<union> {CHR ''A''..CHR ''Z''}"
  unfolding allowed_char_def by auto

subsection \<open>The whitelist pattern\<close>

text \<open>
  \<^verbatim>\<open>$\<close> also matches before a final newline, but the newline is in the class: the
  pattern matches exactly the strings whose characters are all in the class.
\<close>

lemma nil_in_greedy_star: "[] \<in> set (greedy_star p s) \<longleftrightarrow> (\<forall>c\<in>set s. p c)"
  by (induction s) auto

lemma single_in_greedy_star: "[x] \<in> set (greedy_star p s) \<Longrightarrow> p x \<Longrightarrow> \<forall>c\<in>set s. p c"
  by (induction s) (auto split: if_splits)

lemma re_match_allowed_iff: "re_match ALLOWED_CHARS_RE s \<longleftrightarrow> (\<forall>c\<in>set s. allowed_char c)"
proof
  assume "re_match ALLOWED_CHARS_RE s"
  then obtain r where r: "r \<in> set (greedy_star allowed_char s)" and e: "r = [] \<or> r = [CHR 0x0A]"
    by (auto simp: re_match_def ALLOWED_CHARS_RE_def split: if_splits)
  from e show "\<forall>c\<in>set s. allowed_char c"
  proof
    assume "r = []"
    with r show ?thesis by (simp add: nil_in_greedy_star)
  next
    assume "r = [CHR 0x0A]"
    with r show ?thesis using single_in_greedy_star allowed_newline by blast
  qed
next
  assume "\<forall>c\<in>set s. allowed_char c"
  then have "[] \<in> set (greedy_star allowed_char s)" by (simp add: nil_in_greedy_star)
  then show "re_match ALLOWED_CHARS_RE s"
    by (auto simp: re_match_def ALLOWED_CHARS_RE_def)
qed

subsection \<open>\<^verbatim>\<open>strip\<close> and \<^verbatim>\<open>in\<close>\<close>

lemma strip_empty_iff: "strip s = [] \<longleftrightarrow> (\<forall>c\<in>set s. is_space c)"
proof
  assume "strip s = []"
  then have a: "\<forall>c\<in>set (dropWhile is_space s). is_space c"
    by (simp add: strip_def)
  have "dropWhile is_space s = []"
  proof (rule ccontr)
    assume n: "dropWhile is_space s \<noteq> []"
    then have "\<not> is_space (hd (dropWhile is_space s))" by (rule hd_dropWhile)
    moreover from n have "hd (dropWhile is_space s) \<in> set (dropWhile is_space s)" by simp
    ultimately show False using a by blast
  qed
  then show "\<forall>c\<in>set s. is_space c" by simp
next
  assume "\<forall>c\<in>set s. is_space c"
  then show "strip s = []" by (auto simp: strip_def dest: set_dropWhileD)
qed

lemma contains_set: "contains s pat \<Longrightarrow> set pat \<subseteq> set s"
proof (induction s)
  case Nil
  then show ?case by simp
next
  case (Cons c t)
  from Cons.prems have "take (length pat) (c # t) = pat \<or> contains t pat" by simp
  then show ?case
  proof
    assume "take (length pat) (c # t) = pat"
    then have "set pat = set (take (length pat) (c # t))" by simp
    then show ?thesis using set_take_subset by fast
  next
    assume "contains t pat"
    with Cons.IH show ?thesis by auto
  qed
qed

subsection \<open>The percent rewrite\<close>

text \<open>
  The matcher on some inputs, with the results CPython's \<^verbatim>\<open>re.sub\<close> gives: a percent sign
  after a literal, after white space, after a fraction, after a bare dot, and twice.
\<close>

lemma percent_sub_examples:
  "percent_sub ''50%'' = ''(50/100)''"
  "percent_sub ''50 %+7%3'' = ''(50/100)+(7/100)3''"
  "percent_sub ''1.5 % .5% 5.%'' = ''(1.5/100) .(5/100) 5.%''"
  "percent_sub ''12.5.3%%'' = ''12.(5.3/100)%''"
  "percent_sub ''(7)%3'' = ''(7)%3''"
  by code_simp+

lemma set_suffix: "s = u @ r \<Longrightarrow> set r \<subseteq> set s"
  by auto

text \<open>Every match of the percent pattern ends with a percent sign.\<close>

lemma percent_match_needs_percent:
  assumes "CHR ''%'' \<notin> set s"
  shows "percent_match s = None"
proof (cases "percent_match s")
  case None
  then show ?thesis .
next
  case (Some a)
  obtain g rest where a: "a = (g, rest)" by (cases a)
  with Some obtain r1 where r1: "r1 \<in> set (run PERCENT_GROUP1 s)"
    and rest: "rest \<in> set (run PERCENT_TAIL r1)"
    by (auto elim: percent_match_parts)
  from rest obtain m where m: "m \<in> set (run (Many is_space) r1)"
    and p: "rest \<in> set (run (Sym (\<lambda>c. c = CHR ''%'')) m)"
    unfolding PERCENT_TAIL_def run.simps(7) by auto
  from p have "CHR ''%'' \<in> set m" by (cases m) (auto split: if_splits)
  moreover from m obtain u where "r1 = u @ m" using run_suffix by blast
  moreover from r1 obtain v where "s = v @ r1" using run_suffix by blast
  ultimately have "CHR ''%'' \<in> set s" by auto
  with assms show ?thesis by simp
qed

lemma percent_sub_no_percent: "CHR ''%'' \<notin> set s \<Longrightarrow> percent_sub s = s"
proof (induction s)
  case Nil
  then show ?case by simp
next
  case (Cons c t)
  then have "percent_match (c # t) = None" by (intro percent_match_needs_percent)
  with Cons show ?case by simp
qed

lemma replace_char_absent: "old \<notin> set s \<Longrightarrow> replace_char old new s = s"
  by (induction s) (auto simp: replace_char_def)

lemma replace_char_set: "c \<in> set (replace_char old new s) \<Longrightarrow> c \<in> set s \<or> c \<in> set new"
  by (induction s) (auto simp: replace_char_def split: if_splits)

lemma safe_prepare_fixed:
  "CHR ''%'' \<notin> set s \<Longrightarrow> CHR ''^'' \<notin> set s \<Longrightarrow> safe_prepare s = s"
  by (simp add: safe_prepare_def percent_sub_no_percent replace_char_absent)

text \<open>
  A greedy repetition over a run of matching characters, followed by a character that
  does not match, first offers to stop right after the run.
\<close>

lemma greedy_star_head:
  assumes "\<forall>c\<in>set w. p c" and "x = [] \<or> \<not> p (hd x)"
  shows "\<exists>ys. greedy_star p (w @ x) = x # ys"
  using assms
proof (induction w)
  case Nil
  then show ?case by (cases x) auto
next
  case (Cons c w)
  then show ?case by auto
qed

lemma run_Sym_hd: "s \<noteq> [] \<Longrightarrow> \<not> p (hd s) \<Longrightarrow> run (Sym p) s = []"
  by (cases s) auto

lemma percent_match_literal:
  assumes d: "d \<noteq> []" "\<forall>c\<in>set d. is_digit c" and w: "\<forall>c\<in>set w. is_space c"
  shows "percent_match (d @ w @ CHR ''%'' # rest) = Some (d, rest)"
proof -
  let ?x = "w @ CHR ''%'' # rest"
  let ?frac = "Opt (Cat (Sym (\<lambda>c. c = CHR ''.'')) (Many1 is_digit))"
  have hx: "?x \<noteq> []" by simp
  have nd: "\<not> is_digit (hd ?x)"
    using w by (cases w) (auto simp: space_not_digit, simp add: is_digit_def)
  have ndot: "hd ?x \<noteq> CHR ''.''"
    using w by (cases w) (auto dest: space_not_dot)
  from d obtain c d' where dd: "d = c # d'" by (cases d) auto
  with d have "\<forall>c\<in>set d'. is_digit c" "is_digit c" by auto
  with nd obtain ys where "greedy_star is_digit (d' @ ?x) = ?x # ys"
    using greedy_star_head[of d' is_digit ?x] by auto
  with dd \<open>is_digit c\<close> have m1: "run (Many1 is_digit) (d @ ?x) = ?x # ys" by simp
  have "run (Sym (\<lambda>c. c = CHR ''.'')) ?x = []"
    using hx ndot by (rule run_Sym_hd)
  then have frac: "run ?frac ?x = [?x]" by simp
  have g1: "run PERCENT_GROUP1 (d @ ?x) = ?x # concat (map (run ?frac) ys)"
    unfolding PERCENT_GROUP1_def run.simps(7) m1 using frac by simp
  have "\<not> is_space (CHR ''%'')" by (simp add: is_space_def)
  with w obtain us where sp: "run (Many is_space) ?x = (CHR ''%'' # rest) # us"
    using greedy_star_head[of w is_space "CHR ''%'' # rest"] by auto
  have tl: "run PERCENT_TAIL ?x = rest # concat (map (run (Sym (\<lambda>c. c = CHR ''%''))) us)"
    unfolding PERCENT_TAIL_def run.simps(7) sp by simp
  show ?thesis
    unfolding percent_match_def g1 by (simp add: tl)
qed

lemma percent_sub_literal:
  assumes "d \<noteq> []" "\<forall>c\<in>set d. is_digit c" "\<forall>c\<in>set w. is_space c"
  shows "percent_sub (d @ w @ CHR ''%'' # rest) = ''('' @ d @ ''/100)'' @ percent_sub rest"
proof -
  from assms(1) obtain c t where "d @ w @ CHR ''%'' # rest = c # t" by (cases d) auto
  moreover have "percent_match (d @ w @ CHR ''%'' # rest) = Some (d, rest)"
    using assms by (rule percent_match_literal)
  ultimately show ?thesis by (metis percent_sub.simps(2) option.simps(5) case_prod_conv)
qed

text \<open>The rewrite only adds characters of its template \<^verbatim>\<open>(\1/100)\<close>.\<close>

lemma percent_sub_chars: "set (percent_sub s) \<subseteq> set s \<union> set ''(/100)''"
proof (induction s rule: percent_sub.induct)
  case 1
  then show ?case by simp
next
  case (2 c t)
  show ?case
  proof (cases "percent_match (c # t)")
    case None
    with "2.IH" have "set (percent_sub t) \<subseteq> set t \<union> set ''(/100)''" by blast
    moreover from None have "percent_sub (c # t) = c # percent_sub t" by simp
    ultimately show ?thesis by auto
  next
    case (Some a)
    obtain g rest where a: "a = (g, rest)" by (cases a)
    from Some a obtain r1 where r1: "r1 \<in> set (run PERCENT_GROUP1 (c # t))"
      and rest: "rest \<in> set (run PERCENT_TAIL r1)"
      and g: "g = take (length (c # t) - length r1) (c # t)"
      by (auto elim: percent_match_parts)
    from g have sg: "set g \<subseteq> set (c # t)" by (simp only: set_take_subset)
    from r1 obtain u where "c # t = u @ r1" using run_suffix by blast
    moreover from rest obtain v where "r1 = v @ rest" using run_suffix by blast
    ultimately have "c # t = (u @ v) @ rest" by simp
    then have sr: "set rest \<subseteq> set (c # t)" by (rule set_suffix)
    from "2.IH" Some a have ih: "set (percent_sub rest) \<subseteq> set rest \<union> set ''(/100)''" by blast
    from Some a have eq: "percent_sub (c # t) = ''('' @ g @ ''/100)'' @ percent_sub rest" by simp
    have "set (''('' @ g @ ''/100)'' @ percent_sub rest) \<subseteq> set (c # t) \<union> set ''(/100)''"
      using sg sr ih by (simp only: set_append) auto
    then show ?thesis by (simp only: eq)
  qed
qed

subsection \<open>Claims about \<^verbatim>\<open>_safe_prepare\<close>\<close>

text \<open>
  Claim C9. \<^verbatim>\<open>_safe_prepare\<close> is idempotent on its own output: whenever the first pass
  yields a string with no \<^verbatim>\<open>%\<close> and no \<^verbatim>\<open>^\<close>, a second pass changes nothing. (This
  holds for every input, valid or not.)
\<close>

theorem safe_prepare_idempotent:
  assumes "CHR ''%'' \<notin> set (safe_prepare x)" and "CHR ''^'' \<notin> set (safe_prepare x)"
  shows "safe_prepare (safe_prepare x) = safe_prepare x"
  using assms by (rule safe_prepare_fixed)

theorem safe_prepare_idempotent_witness:
  "CHR ''%'' \<notin> set (safe_prepare ''50%+2'') \<and> CHR ''^'' \<notin> set (safe_prepare ''50%+2'')
   \<and> safe_prepare (safe_prepare ''50%+2'') = ''(50/100)+2''"
proof -
  have p: "safe_prepare ''50%+2'' = ''(50/100)+2''" by code_simp
  have a: "CHR ''%'' \<notin> set (safe_prepare ''50%+2'')" "CHR ''^'' \<notin> set (safe_prepare ''50%+2'')"
    unfolding p by simp_all
  show ?thesis using safe_prepare_idempotent[OF a] a p by simp
qed

text \<open>
  Claim C10. The percent rewrite tolerates white space between the numeric literal and
  the percent sign: for every digit string \<open>d\<close> (one or more digits) and every run \<open>w\<close>
  of white space, \<^verbatim>\<open>_safe_prepare(d + w + "%")\<close> is \<^verbatim>\<open>"(" + d + "/100)"\<close>.
\<close>

theorem percent_after_whitespace:
  assumes "d \<noteq> []" and "\<forall>c\<in>set d. is_digit c" and "\<forall>c\<in>set w. is_space c"
  shows "safe_prepare (d @ w @ ''%'') = ''('' @ d @ ''/100)''"
proof -
  have "percent_sub (d @ w @ ''%'') = ''('' @ d @ ''/100)''"
    using percent_sub_literal[OF assms, of "[]"] by simp
  moreover have "CHR ''^'' \<notin> set (''('' @ d @ ''/100)'')"
    using assms(2) by (auto simp: is_digit_def)
  ultimately show ?thesis by (simp add: safe_prepare_def replace_char_absent)
qed

theorem percent_after_whitespace_witness:
  "safe_prepare ''50 %'' = ''(50/100)''
   \<and> safe_prepare (''007'' @ [CHR 0x09, CHR '' ''] @ ''%'') = ''(007/100)''"
  using percent_after_whitespace[of "''50''" "'' ''"]
    percent_after_whitespace[of "''007''" "[CHR 0x09, CHR '' '']"]
  by (simp add: is_digit_def is_space_def)

subsection \<open>Claims about \<^verbatim>\<open>_safe_eval\<close>\<close>

text \<open>
  Claim C8. For every input whose trimmed form is empty, \<^verbatim>\<open>_safe_eval\<close> returns the
  integer \<open>0\<close> and not a failure; in particular on \<^verbatim>\<open>""\<close> and on \<^verbatim>\<open>"   "\<close>.
\<close>

theorem blank_input_is_zero:
  "(strip s = [] \<longrightarrow> safe_eval h s = Inr (IntNum 0))
   \<and> safe_eval h '''' = Inr (IntNum 0) \<and> safe_eval h ''   '' = Inr (IntNum 0)"
  by (simp add: safe_eval_def strip_def is_space_def)

theorem blank_input_is_zero_witness:
  "strip [CHR '' '', CHR 0x09, CHR 0x0A] = []
   \<and> safe_eval table_host [CHR '' '', CHR 0x09, CHR 0x0A] = Inr (IntNum 0)"
proof -
  have "strip [CHR '' '', CHR 0x09, CHR 0x0A] = []" by code_simp
  then show ?thesis
    using blank_input_is_zero[of "[CHR '' '', CHR 0x09, CHR 0x0A]" table_host] by simp
qed

text \<open>
  \<^verbatim>\<open>_safe_prepare\<close> leaves no caret behind; but an input with a caret never gets that
  far through \<^verbatim>\<open>_safe_eval\<close>, whatever the host.
\<close>

lemma replace_char_removes: "old \<notin> set new \<Longrightarrow> old \<notin> set (replace_char old new s)"
  by (induction s) (auto simp: replace_char_def)

lemma safe_prepare_no_caret: "CHR ''^'' \<notin> set (safe_prepare s)"
  unfolding safe_prepare_def by (rule replace_char_removes) simp

lemma caret_never_evaluated:
  assumes "CHR ''^'' \<in> set s"
  shows "safe_eval h s = Inl InvalidExpression"
proof -
  have "\<not> is_space (CHR ''^'')" by (simp add: is_space_def)
  with assms have "strip s \<noteq> []" using strip_empty_iff by blast
  moreover have "\<not> allowed_char (CHR ''^'')" by (simp add: allowed_char_def)
  with assms have "\<not> re_match ALLOWED_CHARS_RE s" using re_match_allowed_iff by blast
  ultimately show ?thesis by (simp add: safe_eval_def)
qed

text \<open>
  Claim C3. \<^verbatim>\<open>evaluate("2^3")\<close> returns 8. \<^verbatim>\<open>_safe_prepare\<close> does turn the caret into
  \<^verbatim>\<open>**\<close>, but \<^verbatim>\<open>_safe_eval\<close> checks the raw input against \<^verbatim>\<open>ALLOWED_CHARS_RE\<close> first,
  the caret is not in its class, and the input is refused before \<^verbatim>\<open>_safe_prepare\<close> runs:
  for every host the result is the failure \<open>InvalidExpression\<close>, not a number.
\<close>

theorem caret_is_rejected:
  "safe_prepare ''2^3'' = ''2**3'' \<and> safe_eval h ''2^3'' = Inl InvalidExpression"
proof -
  have "safe_prepare ''2^3'' = ''2**3''" by code_simp
  moreover have "strip ''2^3'' \<noteq> []" by code_simp
  moreover have "\<not> re_match ALLOWED_CHARS_RE ''2^3''" by code_simp
  ultimately show ?thesis by (simp add: safe_eval_def)
qed

text \<open>
  Claim C4, as the code has it. Character validation passes exactly for the strings
  drawn from the digits, \<^verbatim>\<open>+ - * / ( ) . % ,\<close>, the space, the tab, the newline, the
  underscore and the ASCII letters; and every input whose trimmed form is not empty and
  that has a character outside this set fails with \<open>InvalidExpression\<close>.
\<close>

theorem character_validation:
  "(re_match ALLOWED_CHARS_RE s \<longleftrightarrow>
      set s \<subseteq> {CHR ''0''..CHR ''9''} \<union> set ''+-*/().%, '' \<union> {CHR 0x09, CHR 0x0A, CHR ''_''}
         \<union> {CHR ''a''..CHR ''z''} \<union> {CHR ''A''..CHR ''Z''})
   \<and> (strip s \<noteq> []
        \<and> \<not> set s \<subseteq> {CHR ''0''..CHR ''9''} \<union> set ''+-*/().%, '' \<union> {CHR 0x09, CHR 0x0A, CHR ''_''}
             \<union> {CHR ''a''..CHR ''z''} \<union> {CHR ''A''..CHR ''Z''}
       \<longrightarrow> safe_eval h s = Inl InvalidExpression)"
proof -
  let ?W = "{CHR ''0''..CHR ''9''} \<union> set ''+-*/().%, '' \<union> {CHR 0x09, CHR 0x0A, CHR ''_''}
         \<union> {CHR ''a''..CHR ''z''} \<union> {CHR ''A''..CHR ''Z''}"
  have m: "re_match ALLOWED_CHARS_RE s \<longleftrightarrow> set s \<subseteq> ?W"
    unfolding re_match_allowed_iff using allowed_char_iff by blast
  then show ?thesis by (simp add: safe_eval_def)
qed

theorem character_validation_witness:
  "re_match ALLOWED_CHARS_RE ''sin(1_0)'' \<and> \<not> re_match ALLOWED_CHARS_RE ''2^3''
   \<and> safe_eval table_host ''2 & 3'' = Inl InvalidExpression"
proof -
  have "strip ''2 & 3'' \<noteq> []" by code_simp
  moreover have "\<not> set ''2 & 3'' \<subseteq> {CHR ''0''..CHR ''9''} \<union> set ''+-*/().%, ''
         \<union> {CHR 0x09, CHR 0x0A, CHR ''_''} \<union> {CHR ''a''..CHR ''z''} \<union> {CHR ''A''..CHR ''Z''}"
    by simp
  moreover have "set ''sin(1_0)'' \<subseteq> {CHR ''0''..CHR ''9''} \<union> set ''+-*/().%, ''
         \<union> {CHR 0x09, CHR 0x0A, CHR ''_''} \<union> {CHR ''a''..CHR ''z''} \<union> {CHR ''A''..CHR ''Z''}"
    by simp
  moreover have "\<not> set ''2^3'' \<subseteq> {CHR ''0''..CHR ''9''} \<union> set ''+-*/().%, ''
         \<union> {CHR 0x09, CHR 0x0A, CHR ''_''} \<union> {CHR ''a''..CHR ''z''} \<union> {CHR ''A''..CHR ''Z''}"
    by simp
  ultimately show ?thesis
    using character_validation[of "''2 & 3''" table_host]
      character_validation[of "''sin(1_0)''" table_host]
      character_validation[of "''2^3''" table_host]
    by blast
qed

text \<open>
  The claim as written names a smaller whitelist (digits, \<^verbatim>\<open>+ - * / ( ) . % ,\<close>, space
  and ASCII letters) and speaks of every non-empty input. Both fail: the one-character
  input carriage return is not empty and lies outside that whitelist, yet the result is
  \<open>0\<close>; and \<^verbatim>\<open>1_0\<close> and \<^verbatim>\<open>1\t\n\<close> pass validation although the underscore, the tab and
  the newline are outside it.
\<close>

theorem claimed_whitelist_counterexample:
  "[CHR 0x0D] \<noteq> []
   \<and> CHR 0x0D \<notin> {CHR ''0''..CHR ''9''} \<union> set ''+-*/().%, '' \<union> {CHR ''a''..CHR ''z''} \<union> {CHR ''A''..CHR ''Z''}
   \<and> safe_eval table_host [CHR 0x0D] = Inr (IntNum 0)
   \<and> re_match ALLOWED_CHARS_RE ''1_0''
   \<and> CHR ''_'' \<notin> {CHR ''0''..CHR ''9''} \<union> set ''+-*/().%, '' \<union> {CHR ''a''..CHR ''z''} \<union> {CHR ''A''..CHR ''Z''}
   \<and> re_match ALLOWED_CHARS_RE [CHR ''1'', CHR 0x09, CHR 0x0A]
   \<and> CHR 0x09 \<notin> {CHR ''0''..CHR ''9''} \<union> set ''+-*/().%, '' \<union> {CHR ''a''..CHR ''z''} \<union> {CHR ''A''..CHR ''Z''}
   \<and> CHR 0x0A \<notin> {CHR ''0''..CHR ''9''} \<union> set ''+-*/().%, '' \<union> {CHR ''a''..CHR ''z''} \<union> {CHR ''A''..CHR ''Z''}"
proof -
  have "safe_eval table_host [CHR 0x0D] = Inr (IntNum 0)" by code_simp
  moreover have "re_match ALLOWED_CHARS_RE ''1_0''" by code_simp
  moreover have "re_match ALLOWED_CHARS_RE [CHR ''1'', CHR 0x09, CHR 0x0A]" by code_simp
  ultimately show ?thesis by simp
qed

text \<open>
  An unsafe token is made of letters and underscores, so an input that has one in its
  prepared form is not blank.
\<close>

lemma unsafe_tokens_not_blank:
  assumes "unsafe_tokens (safe_prepare s)"
  shows "strip s \<noteq> []"
proof
  assume "strip s = []"
  then have sp: "\<forall>c\<in>set s. is_space c" by (simp add: strip_empty_iff)
  have "\<not> is_space (CHR ''%'')" "\<not> is_space (CHR ''^'')" by (simp_all add: is_space_def)
  with sp have "CHR ''%'' \<notin> set s" "CHR ''^'' \<notin> set s" by auto
  then have "safe_prepare s = s" by (rule safe_prepare_fixed)
  with assms have "unsafe_tokens s" by simp
  then have "CHR ''_'' \<in> set s \<or> CHR ''i'' \<in> set s \<or> CHR ''e'' \<in> set s"
    unfolding unsafe_tokens_def by (auto dest!: contains_set)
  moreover have "\<not> is_space (CHR ''_'')" "\<not> is_space (CHR ''i'')" "\<not> is_space (CHR ''e'')"
    by (simp_all add: is_space_def)
  ultimately show False using sp by auto
qed

text \<open>
  Claim C5, as the code has it. For every input whose prepared form contains \<^verbatim>\<open>__\<close>,
  \<^verbatim>\<open>import\<close>, \<^verbatim>\<open>exec\<close> or \<^verbatim>\<open>eval\<close>, \<^verbatim>\<open>_safe_eval\<close> fails before anything is evaluated
  (the result does not depend on the host): with \<open>UnsafeExpression\<close> when the raw input
  passes character validation, with \<open>InvalidExpression\<close> when it does not. In particular
  \<^verbatim>\<open>import os\<close> and \<^verbatim>\<open>exec(1)\<close> fail with \<open>UnsafeExpression\<close>.
\<close>

theorem unsafe_tokens_rejected:
  assumes "unsafe_tokens (safe_prepare s)"
  shows "safe_eval h s =
    (if re_match ALLOWED_CHARS_RE s then Inl UnsafeExpression else Inl InvalidExpression)"
  using assms unsafe_tokens_not_blank[OF assms] by (simp add: safe_eval_def)

theorem unsafe_tokens_rejected_witness:
  "unsafe_tokens (safe_prepare ''import os'')
   \<and> safe_eval table_host ''import os'' = Inl UnsafeExpression
   \<and> unsafe_tokens (safe_prepare ''exec(1)'')
   \<and> safe_eval table_host ''exec(1)'' = Inl UnsafeExpression"
proof -
  have a: "unsafe_tokens (safe_prepare ''import os'')" by code_simp
  have b: "unsafe_tokens (safe_prepare ''exec(1)'')" by code_simp
  have c: "re_match ALLOWED_CHARS_RE ''import os''" by code_simp
  have d: "re_match ALLOWED_CHARS_RE ''exec(1)''" by code_simp
  show ?thesis
    using unsafe_tokens_rejected[OF a, of table_host] unsafe_tokens_rejected[OF b, of table_host]
      a b c d
    by simp
qed

text \<open>
  The claim as written promises \<open>UnsafeExpression\<close> for every such input. The input
  \<^verbatim>\<open>__import__('os')\<close> has \<^verbatim>\<open>__\<close> and \<^verbatim>\<open>import\<close> in its prepared form, but its quotes
  are outside the whitelist, which is checked first: the failure is
  \<open>InvalidExpression\<close>.
\<close>

theorem unsafe_but_invalid_counterexample:
  "unsafe_tokens (safe_prepare (''__import__('' @ [CHR 0x27] @ ''os'' @ [CHR 0x27] @ '')''))
   \<and> safe_eval table_host (''__import__('' @ [CHR 0x27] @ ''os'' @ [CHR 0x27] @ '')'')
       = Inl InvalidExpression"
  by code_simp

text \<open>The \<^verbatim>\<open>try\<close> block of \<^verbatim>\<open>_safe_eval\<close> turns every fault of the host into \<open>EvaluationError\<close>.\<close>

lemma eval_fault:
  assumes "strip s \<noteq> []" and "re_match ALLOWED_CHARS_RE s"
    and "\<not> unsafe_tokens (safe_prepare s)"
    and "(\<exists>e. py_eval h (safe_prepare s) EVAL_GLOBALS = Inl e)
         \<or> (\<exists>ob e. py_eval h (safe_prepare s) EVAL_GLOBALS = Inr (PyOther ob)
                   \<and> py_float h ob = Inl e)"
  shows "safe_eval h s = Inl EvaluationError"
  using assms by (auto simp: safe_eval_def eval_restricted_def)

text \<open>
  Claim C6. For every input that reaches character validation (its trimmed form is not
  empty) and passes it and the unsafe-token check: if evaluating the prepared expression
  raises, or yields an object that is not a number and that \<^verbatim>\<open>float\<close> refuses, the result
  is the failure \<open>EvaluationError\<close>. The fault of the host never escapes: it is a value
  of the host's sum type, and \<^verbatim>\<open>_safe_eval\<close> maps it to one of its own three failures.
  The instances \<^verbatim>\<open>1/0\<close> (\<^verbatim>\<open>ZeroDivisionError\<close>), \<^verbatim>\<open>foo(1)\<close> (\<^verbatim>\<open>NameError\<close>: \<^verbatim>\<open>foo\<close> is no
  key of \<^verbatim>\<open>EVAL_GLOBALS\<close>) and \<^verbatim>\<open>sin\<close> (a function, not a number) follow.
\<close>

theorem evaluation_faults_caught:
  assumes "strip s \<noteq> []" and "re_match ALLOWED_CHARS_RE s"
    and "\<not> unsafe_tokens (safe_prepare s)"
    and "(\<exists>e. py_eval h (safe_prepare s) EVAL_GLOBALS = Inl e)
         \<or> (\<exists>ob e. py_eval h (safe_prepare s) EVAL_GLOBALS = Inr (PyOther ob)
                   \<and> py_float h ob = Inl e)"
  shows "safe_eval h s = Inl EvaluationError"
  using assms by (rule eval_fault)

text \<open>
  On every host where \<^verbatim>\<open>eval\<close> raises on \<^verbatim>\<open>1/0\<close> and on \<^verbatim>\<open>foo(1)\<close>, as Python does
  (\<^verbatim>\<open>ZeroDivisionError\<close>, and \<^verbatim>\<open>NameError\<close> since \<^verbatim>\<open>foo\<close> is no key of the globals), both
  inputs fail with \<open>EvaluationError\<close>.
\<close>

lemma division_by_zero_is_EvaluationError:
  assumes "py_eval h ''1/0'' EVAL_GLOBALS = Inl e"
  shows "safe_eval h ''1/0'' = Inl EvaluationError"
proof -
  have p: "safe_prepare ''1/0'' = ''1/0''" by code_simp
  have "strip ''1/0'' \<noteq> []" "re_match ALLOWED_CHARS_RE ''1/0''"
    "\<not> unsafe_tokens (safe_prepare ''1/0'')"
    by code_simp+
  then show ?thesis using assms by (intro eval_fault) (simp_all add: p)
qed

lemma unknown_name_is_EvaluationError:
  assumes "py_eval h ''foo(1)'' EVAL_GLOBALS = Inl e"
  shows "safe_eval h ''foo(1)'' = Inl EvaluationError"
proof -
  have p: "safe_prepare ''foo(1)'' = ''foo(1)''" by code_simp
  have "strip ''foo(1)'' \<noteq> []" "re_match ALLOWED_CHARS_RE ''foo(1)''"
    "\<not> unsafe_tokens (safe_prepare ''foo(1)'')"
    by code_simp+
  then show ?thesis using assms by (intro eval_fault) (simp_all add: p)
qed

lemma globals_foo: "EVAL_GLOBALS ''foo'' = None"
  by (simp add: EVAL_GLOBALS_def SAFE_MATH_def map_add_def)

lemma globals_sin: "EVAL_GLOBALS ''sin'' = Some Math_sin"
  by (simp add: EVAL_GLOBALS_def SAFE_MATH_def map_add_def)

theorem evaluation_faults_caught_witness:
  "safe_eval table_host ''1/0'' = Inl EvaluationError
   \<and> safe_eval table_host ''foo(1)'' = Inl EvaluationError
   \<and> safe_eval table_host ''sin'' = Inl EvaluationError"
proof -
  have p: "safe_prepare ''1/0'' = ''1/0''" "safe_prepare ''foo(1)'' = ''foo(1)''"
    "safe_prepare ''sin'' = ''sin''"
    by code_simp+
  have a: "strip ''1/0'' \<noteq> []" "re_match ALLOWED_CHARS_RE ''1/0''"
    "\<not> unsafe_tokens (safe_prepare ''1/0'')"
    by code_simp+
  have a': "py_eval table_host (safe_prepare ''1/0'') EVAL_GLOBALS = Inl ZeroDivisionError"
    by (simp add: p table_host_def table_eval_def)
  have b: "strip ''foo(1)'' \<noteq> []" "re_match ALLOWED_CHARS_RE ''foo(1)''"
    "\<not> unsafe_tokens (safe_prepare ''foo(1)'')"
    by code_simp+
  have b': "py_eval table_host (safe_prepare ''foo(1)'') EVAL_GLOBALS = Inl NameError"
    by (simp add: p table_host_def table_eval_def globals_foo)
  have c: "strip ''sin'' \<noteq> []" "re_match ALLOWED_CHARS_RE ''sin''"
    "\<not> unsafe_tokens (safe_prepare ''sin'')"
    by code_simp+
  have c': "py_eval table_host (safe_prepare ''sin'') EVAL_GLOBALS = Inr (PyOther ())
      \<and> py_float table_host () = Inl TypeError"
    by (simp add: p table_host_def table_eval_def globals_sin)
  show ?thesis
    using evaluation_faults_caught[OF a, of table_host]
      evaluation_faults_caught[OF b, of table_host]
      evaluation_faults_caught[OF c, of table_host] a' b' c'
    by blast
qed

text \<open>
  The names \<^verbatim>\<open>eval\<close> can resolve are the keys of \<^verbatim>\<open>EVAL_GLOBALS\<close>: the eighteen of
  \<^verbatim>\<open>SAFE_MATH\<close> and \<^verbatim>\<open>__builtins__\<close>, which is bound to an empty dictionary and which
  no source that reaches \<^verbatim>\<open>eval\<close> can spell.
\<close>

lemma EVAL_GLOBALS_keys:
  "dom EVAL_GLOBALS =
     {''__builtins__'', ''sin'', ''cos'', ''tan'', ''asin'', ''acos'', ''atan'', ''sqrt'', ''pow'',
      ''log'', ''ln'', ''log10'', ''exp'', ''pi'', ''e'', ''abs'', ''round'', ''int'', ''float''}"
  unfolding EVAL_GLOBALS_def SAFE_MATH_def dom_map_add dom_map_of_conv_image_fst by auto

lemma EVAL_GLOBALS_builtins: "EVAL_GLOBALS ''__builtins__'' = Some Empty_dict"
  by (simp add: EVAL_GLOBALS_def SAFE_MATH_def map_add_def)

lemma contains_prefix: "contains s (p @ q) \<Longrightarrow> contains s p"
proof (induction s)
  case Nil
  then show ?case by simp
next
  case (Cons c t)
  from Cons.prems have "take (length (p @ q)) (c # t) = p @ q \<or> contains t (p @ q)"
    by simp
  then show ?case
  proof
    assume a: "take (length (p @ q)) (c # t) = p @ q"
    have "take (length p) (c # t) = take (length p) (take (length (p @ q)) (c # t))"
      by (simp add: min_def)
    also have "\<dots> = take (length p) (p @ q)" by (simp only: a)
    also have "\<dots> = p" by simp
    finally show ?thesis by simp
  next
    assume "contains t (p @ q)"
    with Cons.IH show ?thesis by simp
  qed
qed

lemma builtins_not_spelled:
  assumes "\<not> unsafe_tokens src"
  shows "\<not> contains src ''__builtins__''"
proof
  assume "contains src ''__builtins__''"
  then have "contains src (''__'' @ ''builtins__'')" by simp
  then have "contains src ''__''" by (rule contains_prefix)
  with assms show False by (simp add: unsafe_tokens_def)
qed

text \<open>
  Claim C1. Nothing beyond arithmetic and the names of \<^verbatim>\<open>SAFE_MATH\<close> is executed, with no
  access to attributes or to other functions. The checks of \<^verbatim>\<open>_safe_eval\<close> do not
  establish this: \<^verbatim>\<open>(5).conjugate()\<close> is made of whitelisted characters, has no percent
  sign, no caret and no unsafe token, so for every host it is handed unchanged to
  \<^verbatim>\<open>eval\<close>, although \<^verbatim>\<open>conjugate\<close> is no key of \<^verbatim>\<open>EVAL_GLOBALS\<close>. (CPython then looks
  \<^verbatim>\<open>conjugate\<close> up as an attribute of the integer and calls the method.)
\<close>

theorem method_call_reaches_eval:
  "safe_eval h ''(5).conjugate()'' = eval_restricted h ''(5).conjugate()''
   \<and> EVAL_GLOBALS ''conjugate'' = None"
proof -
  have "safe_prepare ''(5).conjugate()'' = ''(5).conjugate()''" by code_simp
  moreover have "strip ''(5).conjugate()'' \<noteq> []" by code_simp
  moreover have "re_match ALLOWED_CHARS_RE ''(5).conjugate()''" by code_simp
  moreover have "\<not> unsafe_tokens ''(5).conjugate()''" by code_simp
  moreover have "EVAL_GLOBALS ''conjugate'' = None"
    by (simp add: EVAL_GLOBALS_def SAFE_MATH_def map_add_def)
  ultimately show ?thesis by (simp add: safe_eval_def)
qed

subsection \<open>Arithmetic strings\<close>

text \<open>
  No string of digits and \<^verbatim>\<open>+ - * / ( ) . %\<close> is refused as invalid or unsafe: the
  prepared form of a non-empty one always reaches \<^verbatim>\<open>eval\<close>, and the number returned is
  the one the host computes (with floating-point division, in Python).
\<close>

lemma arith_not_space: "arith_char c \<Longrightarrow> \<not> is_space c"
proof
  assume a: "arith_char c" and sp: "is_space c"
  then have "\<not> is_digit c" by (simp add: space_not_digit)
  with a have "c \<in> set ''+-*/().%''" by (simp add: arith_char_def)
  with sp show False by (auto simp: is_space_def)
qed

lemma arith_allowed: "arith_char c \<Longrightarrow> allowed_char c"
  by (auto simp: arith_char_def allowed_char_def is_digit_def)

lemma template_arith:
  assumes "c \<in> set ''(/100)''"
  shows "arith_char c"
proof -
  from assms have "c = CHR ''('' \<or> c = CHR ''/'' \<or> c = CHR ''1'' \<or> c = CHR ''0'' \<or> c = CHR '')''"
    by simp
  then show ?thesis by (elim disjE) (simp_all add: arith_char_def is_digit_def)
qed

lemma safe_prepare_arith:
  assumes "\<forall>c\<in>set s. arith_char c" and "c \<in> set (safe_prepare s)"
  shows "arith_char c"
proof -
  from assms(2) have "c \<in> set (percent_sub s) \<or> c \<in> set ''**''"
    unfolding safe_prepare_def by (rule replace_char_set)
  then show ?thesis
  proof
    assume "c \<in> set (percent_sub s)"
    then have "c \<in> set s \<or> c \<in> set ''(/100)''" using percent_sub_chars by blast
    then show ?thesis using assms(1) template_arith by blast
  next
    assume "c \<in> set ''**''"
    then show ?thesis by (simp add: arith_char_def)
  qed
qed

lemma arith_no_letters:
  "arith_char c \<Longrightarrow> c \<noteq> CHR ''_'' \<and> c \<noteq> CHR ''i'' \<and> c \<noteq> CHR ''e''"
  by (auto simp: arith_char_def is_digit_def)

lemma arith_strings_reach_eval:
  assumes "\<forall>c\<in>set s. arith_char c" and "s \<noteq> []"
  shows "safe_eval h s = eval_restricted h (safe_prepare s)"
proof -
  from assms obtain c where "c \<in> set s" "\<not> is_space c"
    using arith_not_space by (cases s) auto
  then have 1: "strip s \<noteq> []" using strip_empty_iff by blast
  from assms(1) have 2: "re_match ALLOWED_CHARS_RE s"
    by (simp add: re_match_allowed_iff arith_allowed)
  have 3: "\<not> unsafe_tokens (safe_prepare s)"
  proof
    assume "unsafe_tokens (safe_prepare s)"
    then have "CHR ''_'' \<in> set (safe_prepare s) \<or> CHR ''i'' \<in> set (safe_prepare s)
        \<or> CHR ''e'' \<in> set (safe_prepare s)"
      unfolding unsafe_tokens_def by (auto dest!: contains_set)
    then obtain c where "c \<in> set (safe_prepare s)"
      "c = CHR ''_'' \<or> c = CHR ''i'' \<or> c = CHR ''e''"
      by blast
    moreover from this(1) assms(1) have "arith_char c" by (rule safe_prepare_arith[rotated])
    ultimately show False using arith_no_letters by blast
  qed
  from 1 2 3 show ?thesis by (simp add: safe_eval_def)
qed

text \<open>
  Claim C2. For every string of digits and \<^verbatim>\<open>+ - * / ( ) . %\<close> with balanced parentheses
  and valid numeric syntax, evaluate returns the number the string denotes. The percent
  rewrite breaks this for a literal that starts with its decimal point. \<^verbatim>\<open>.5\<close> is numeric
  syntax for the code, which hands it to \<^verbatim>\<open>eval\<close> as it is; but in \<^verbatim>\<open>.5%\<close> the pattern
  \<^verbatim>\<open>(\d+(\.\d+)?)\s*%\<close> finds only the literal \<^verbatim>\<open>5\<close>, and for every host what is
  evaluated is \<^verbatim>\<open>.(5/100)\<close>, which is not an expression (Python raises \<^verbatim>\<open>SyntaxError\<close>,
  so the result is \<open>EvaluationError\<close> and not 0.005).
\<close>

theorem leading_dot_percent_is_mangled:
  "safe_eval h ''.5'' = eval_restricted h ''.5''
   \<and> safe_prepare ''.5%'' = ''.(5/100)''
   \<and> safe_eval h ''.5%'' = eval_restricted h ''.(5/100)''"
proof -
  have "safe_prepare ''.5'' = ''.5''" "safe_prepare ''.5%'' = ''.(5/100)''" by code_simp+
  moreover have "\<forall>c\<in>set ''.5''. arith_char c" "\<forall>c\<in>set ''.5%''. arith_char c"
    by (simp_all add: arith_char_def is_digit_def)
  ultimately show ?thesis
    using arith_strings_reach_eval[of "''.5''" h] arith_strings_reach_eval[of "''.5%''" h]
    by simp
qed

subsection \<open>Claims about \<^verbatim>\<open>_eval\<close>\<close>

text \<open>An integer below ten is within every digit limit; a power of ten is over its own.\<close>

lemma small_within_limit: "\<bar>n\<bar> < 10 \<Longrightarrow> \<not> over_digit_limit h n"
proof
  assume a: "\<bar>n\<bar> < 10" and o: "over_digit_limit h n"
  from o have k: "int_max_str_digits h \<noteq> 0" and le: "10 ^ int_max_str_digits h \<le> \<bar>n\<bar>"
    by (simp_all add: over_digit_limit_def)
  from k have "(10::int) ^ 1 \<le> 10 ^ int_max_str_digits h"
    by (intro power_increasing) simp_all
  with le a show False by simp
qed

lemma power_over_limit:
  assumes "int_max_str_digits h = k" and "k \<noteq> 0"
  shows "over_digit_limit h (10 ^ k)"
  using assms by (simp add: over_digit_limit_def)

lemma table_host_limit: "int_max_str_digits table_host = 4300"
  by (simp add: table_host_def)

lemma table_host_over_limit: "over_digit_limit table_host (10 ^ 4300)"
  by (rule power_over_limit[OF table_host_limit]) simp

lemma table_host_long_integer:
  "safe_eval table_host ''10**4300'' = Inr (IntNum (10 ^ 4300))"
proof -
  have p: "safe_prepare ''10**4300'' = ''10**4300''" by code_simp
  have c: "strip ''10**4300'' \<noteq> []" "re_match ALLOWED_CHARS_RE ''10**4300''"
    "\<not> unsafe_tokens (safe_prepare ''10**4300'')"
    by code_simp+
  have e: "py_eval table_host ''10**4300'' EVAL_GLOBALS = Inr (PyInt (10 ^ 4300))"
    by (simp add: table_host_def table_eval_def del: power_numeral)
  show ?thesis
    using c by (simp add: safe_eval_def eval_restricted_def p e del: power_numeral)
qed

text \<open>
  Claim C7, as the code has it. On the equals action the stored expression is left
  unchanged, and the error box shown, if \<^verbatim>\<open>_safe_eval\<close> fails, and also if it succeeds but
  \<^verbatim>\<open>str\<close> of the result raises \<^verbatim>\<open>ValueError\<close> (an integer over the interpreter's digit
  limit). Otherwise the stored expression becomes \<^verbatim>\<open>str\<close> of the result, where a float
  that is a whole number is first converted to \<^verbatim>\<open>int\<close> (\<^verbatim>\<open>4.0\<close> is stored as \<^verbatim>\<open>4\<close>, not as
  \<^verbatim>\<open>4.0\<close>). These are the only outcomes: no exception leaves \<^verbatim>\<open>_eval\<close>.
\<close>

theorem commit_outcome:
  "(safe_eval h (expr st) = Inl f \<longrightarrow>
      eval_commit h st = Inr (st, Some ''Invalid expression''))
   \<and> (safe_eval h (expr st) = Inr (IntNum n) \<and> over_digit_limit h n \<longrightarrow>
      eval_commit h st = Inr (st, Some ''Invalid expression''))
   \<and> (safe_eval h (expr st) = Inr (IntNum n) \<and> \<not> over_digit_limit h n \<longrightarrow>
      (\<exists>st'. eval_commit h st = Inr (st', None) \<and> expr st' = str_int n))
   \<and> (safe_eval h (expr st) = Inr (BoolNum b) \<longrightarrow>
      (\<exists>st'. eval_commit h st = Inr (st', None)
            \<and> expr st' = (if b then ''True'' else ''False'')))
   \<and> (safe_eval h (expr st) = Inr (FloatNum x) \<and> \<not> float_is_integer h x \<longrightarrow>
      (\<exists>st'. eval_commit h st = Inr (st', None) \<and> expr st' = float_str h x))
   \<and> (safe_eval h (expr st) = Inr (FloatNum x) \<and> float_is_integer h x
        \<and> \<not> over_digit_limit h (float_int h x) \<longrightarrow>
      (\<exists>st'. eval_commit h st = Inr (st', None) \<and> expr st' = str_int (float_int h x)))
   \<and> (safe_eval h (expr st) = Inr (FloatNum x) \<and> float_is_integer h x
        \<and> over_digit_limit h (float_int h x) \<longrightarrow>
      eval_commit h st = Inr (st, Some ''Invalid expression''))
   \<and> (\<exists>st' box. eval_commit h st = Inr (st', box))"
  by (auto simp: eval_commit_def update_display_def py_str_def int_str_def Let_def
      split: sum.splits number.splits)

theorem commit_outcome_witness:
  "safe_eval table_host ''2+3'' = Inr (IntNum 5)
   \<and> (\<exists>st'. eval_commit table_host \<lparr>expr = ''2+3'', expr_var = ''2+3'', result_var = ''5''\<rparr>
              = Inr (st', None) \<and> expr st' = ''5'')
   \<and> safe_eval table_host ''8/2'' = Inr (FloatNum 4)
   \<and> (\<exists>st'. eval_commit table_host \<lparr>expr = ''8/2'', expr_var = ''8/2'', result_var = ''4''\<rparr>
              = Inr (st', None) \<and> expr st' = ''4'')
   \<and> safe_eval table_host ''1/0'' = Inl EvaluationError
   \<and> eval_commit table_host \<lparr>expr = ''1/0'', expr_var = ''1/0'', result_var = []\<rparr>
       = Inr (\<lparr>expr = ''1/0'', expr_var = ''1/0'', result_var = []\<rparr>, Some ''Invalid expression'')"
proof -
  have a: "safe_eval table_host ''2+3'' = Inr (IntNum 5)" by code_simp
  have b: "safe_eval table_host ''8/2'' = Inr (FloatNum 4)" by code_simp
  have c: "safe_eval table_host ''1/0'' = Inl EvaluationError" by code_simp
  have t: "float_is_integer table_host 4" "float_int table_host 4 = 4"
    by (simp_all add: table_host_def)
  have l: "\<not> over_digit_limit table_host 5" "\<not> over_digit_limit table_host 4"
    by (simp_all add: small_within_limit)
  have s: "str_int 5 = ''5''" "str_int 4 = ''4''"
    by (simp_all add: str_int_def str_nat.simps)
  show ?thesis
    using commit_outcome[where h = table_host and n = 5
        and st = "\<lparr>expr = ''2+3'', expr_var = ''2+3'', result_var = ''5''\<rparr>"]
      commit_outcome[where h = table_host and x = 4
        and st = "\<lparr>expr = ''8/2'', expr_var = ''8/2'', result_var = ''4''\<rparr>"]
      commit_outcome[where h = table_host and f = EvaluationError
        and st = "\<lparr>expr = ''1/0'', expr_var = ''1/0'', result_var = []\<rparr>"]
      a b c t l s
    by simp
qed

text \<open>
  The claim as written promises that the expression is replaced whenever evaluation
  succeeds. On an interpreter with the default digit limit, \<^verbatim>\<open>10**4300\<close> evaluates to an
  integer of 4301 digits, \<^verbatim>\<open>str\<close> refuses it, and \<^verbatim>\<open>_eval\<close> keeps the expression and shows
  the error box.
\<close>

theorem long_integer_counterexample:
  "safe_eval table_host ''10**4300'' = Inr (IntNum (10 ^ 4300))
   \<and> eval_commit table_host \<lparr>expr = ''10**4300'', expr_var = ''10**4300'', result_var = []\<rparr>
       = Inr (\<lparr>expr = ''10**4300'', expr_var = ''10**4300'', result_var = []\<rparr>,
              Some ''Invalid expression'')"
proof -
  have "py_str table_host (IntNum (10 ^ 4300)) = Inl ValueError"
    using table_host_over_limit by (simp add: py_str_def int_str_def del: power_numeral)
  then show ?thesis
    using table_host_long_integer by (simp add: eval_commit_def del: power_numeral)
qed

end
